theory Spec2Isabelle
  imports Complex_Main "HOL-Library.Sublist" "HOL-Library.Log_Nat"
begin

section \<open>Python values, text and exceptions\<close>

text \<open>
  The repository is Python. A \<^verbatim>\<open>str\<close> is modelled as a \<^typ>\<open>string\<close>, one character per
  code point; the characters of the model are the code points below 256, and the character
  classes below are those of Python on that range. An exception is a value: its class name and
  the text \<^verbatim>\<open>str(e)\<close>. A function that may raise returns \<open>py_exception + 'a\<close>,
  with \<open>Inl\<close> for the raised exception; \<^verbatim>\<open>except Exception\<close> catches every exception of the
  model.
\<close>

datatype py_exception = PyException (exc_class: string) (exc_str: string)

definition isspace :: "char \<Rightarrow> bool" where
  "isspace c = (let n = (of_char c :: nat) in (9 \<le> n \<and> n \<le> 13) \<or> (28 \<le> n \<and> n \<le> 32) \<or> n = 133 \<or> n = 160)"

definition isdecimal :: "char \<Rightarrow> bool" where
  "isdecimal c = (let n = (of_char c :: nat) in 48 \<le> n \<and> n \<le> 57)"

definition isalnum :: "char \<Rightarrow> bool" where
  "isalnum c = (let n = (of_char c :: nat) in
     (48 \<le> n \<and> n \<le> 57) \<or> (65 \<le> n \<and> n \<le> 90) \<or> (97 \<le> n \<and> n \<le> 122) \<or>
     n = 170 \<or> n = 178 \<or> n = 179 \<or> n = 181 \<or> n = 185 \<or> n = 186 \<or> (188 \<le> n \<and> n \<le> 190) \<or>
     (192 \<le> n \<and> n \<le> 214) \<or> (216 \<le> n \<and> n \<le> 246) \<or> (248 \<le> n \<and> n \<le> 255))"

definition lower_char :: "char \<Rightarrow> char" where
  "lower_char c = (let n = (of_char c :: nat) in
     if (65 \<le> n \<and> n \<le> 90) \<or> (192 \<le> n \<and> n \<le> 214) \<or> (216 \<le> n \<and> n \<le> 222)
     then char_of (n + 32) else c)"

definition lower :: "string \<Rightarrow> string" where
  "lower s = map lower_char s"

definition strip :: "string \<Rightarrow> string" where
  "strip s = rev (dropWhile isspace (rev (dropWhile isspace s)))"

definition rstrip :: "char \<Rightarrow> string \<Rightarrow> string" where
  "rstrip c s = rev (dropWhile (\<lambda>x. x = c) (rev s))"

text \<open>\<^verbatim>\<open>p in s\<close> on strings: \<open>p\<close> occurs in \<open>s\<close> as a contiguous piece.\<close>

fun contains :: "string \<Rightarrow> string \<Rightarrow> bool" where
  "contains p [] = (p = [])"
| "contains p (c # cs) = (prefix p (c # cs) \<or> contains p cs)"

fun join :: "string \<Rightarrow> string list \<Rightarrow> string" where
  "join sep [] = []"
| "join sep [x] = x"
| "join sep (x # y # ys) = x @ sep @ join sep (y # ys)"

text \<open>\<^verbatim>\<open>str(n)\<close> for an integer: the decimal digits, most significant first.\<close>

definition digit_char :: "nat \<Rightarrow> char" where
  "digit_char d = ''0123456789'' ! d"

function str_nat :: "nat \<Rightarrow> string" where
  "str_nat n = (if n < 10 then [digit_char n] else str_nat (n div 10) @ [digit_char (n mod 10)])"
  by pat_completeness auto
termination
  by (relation "measure id") auto

definition str_int :: "int \<Rightarrow> string" where
  "str_int i = (if i < 0 then CHR ''-'' # str_nat (nat (- i)) else str_nat (nat i))"

text \<open>
  \<^verbatim>\<open>str(n)\<close> as CPython 3.11 computes it: the conversion raises for an integer of more than
  4300 digits.
\<close>

definition py_str_int :: "int \<Rightarrow> py_exception + string" where
  "py_str_int i =
     (if 4300 < length (str_nat (nat \<bar>i\<bar>)) then
        Inl (PyException ''ValueError''
          (''Exceeds the limit (4300 digits) for integer string conversion; '' @
           ''use sys.set_int_max_str_digits() to increase the limit''))
      else Inr (str_int i))"

section \<open>Python numbers\<close>

text \<open>
  An \<^verbatim>\<open>int\<close> is unbounded. A \<^verbatim>\<open>float\<close> is an IEEE 754 binary64 value: a finite value is
  given by the rational number it denotes, with the negative zero, the infinities (the flag
  is the sign, true for minus) and NaN apart. Arithmetic on floats is the exact result rounded
  to the nearest binary64 value, ties to even.
\<close>

datatype py_float = Finite rat | NegZero | Infinity bool | NaN

datatype py_number = PyInt int | PyFloat py_float

text \<open>A value of any other class is kept as the text \<^verbatim>\<open>str\<close> gives for it.\<close>

datatype py_value = Number py_number | Object string

definition pow2 :: "int \<Rightarrow> rat" where
  "pow2 k = (if 0 \<le> k then 2 ^ nat k else 1 / 2 ^ nat (- k))"

text \<open>For \<open>q > 0\<close>, the \<open>k\<close> with \<open>2 ^ k \<le> q < 2 ^ (k + 1)\<close>.\<close>

definition floor_log2 :: "rat \<Rightarrow> int" where
  "floor_log2 q = (if 1 \<le> q then bitlen \<lfloor>q\<rfloor> - 1 else - bitlen (\<lceil>1 / q\<rceil> - 1))"

definition round_half_even :: "rat \<Rightarrow> int" where
  "round_half_even q =
     (let f = \<lfloor>q\<rfloor>; r = q - of_int f
      in if r < 1 / 2 then f else if 1 / 2 < r then f + 1 else if even f then f else f + 1)"

text \<open>
  Rounding a rational number to binary64: 53 significant bits, the exponent of the last bit
  not below \<open>-1074\<close>, overflow to infinity from \<open>2 ^ 1024\<close> on.
\<close>

definition round_double :: "rat \<Rightarrow> py_float" where
  "round_double q =
     (if q = 0 then Finite 0
      else
        let a = \<bar>q\<bar>;
            e = max (floor_log2 a) (- 1022) - 52;
            v = of_int (round_half_even (a / pow2 e)) * pow2 e
        in if pow2 1024 \<le> v then Infinity (q < 0)
           else if v = 0 then (if q < 0 then NegZero else Finite 0)
           else Finite (if q < 0 then - v else v))"

definition float_sign :: "py_float \<Rightarrow> bool" where
  "float_sign x = (case x of Finite q \<Rightarrow> q < 0 | NegZero \<Rightarrow> True | Infinity b \<Rightarrow> b | NaN \<Rightarrow> False)"

definition float_val :: "py_float \<Rightarrow> rat" where
  "float_val x = (case x of Finite q \<Rightarrow> q | _ \<Rightarrow> 0)"

definition float_zero :: "bool \<Rightarrow> py_float" where
  "float_zero negative = (if negative then NegZero else Finite 0)"

text \<open>\<^verbatim>\<open>x == 0\<close> on a float: true for both zeros.\<close>

definition float_is_zero :: "py_float \<Rightarrow> bool" where
  "float_is_zero x = (x = Finite 0 \<or> x = NegZero)"

definition float_is_inf :: "py_float \<Rightarrow> bool" where
  "float_is_inf x = (case x of Infinity b \<Rightarrow> True | _ \<Rightarrow> False)"

definition float_neg :: "py_float \<Rightarrow> py_float" where
  "float_neg x =
     (case x of Finite q \<Rightarrow> (if q = 0 then NegZero else Finite (- q))
      | NegZero \<Rightarrow> Finite 0 | Infinity b \<Rightarrow> Infinity (\<not> b) | NaN \<Rightarrow> NaN)"

definition float_add :: "py_float \<Rightarrow> py_float \<Rightarrow> py_float" where
  "float_add x y =
     (if x = NaN \<or> y = NaN then NaN
      else if float_is_inf x then (if float_is_inf y \<and> float_sign x \<noteq> float_sign y then NaN else x)
      else if float_is_inf y then y
      else if float_val x + float_val y = 0
        then (if x = NegZero \<and> y = NegZero then NegZero else Finite 0)
      else round_double (float_val x + float_val y))"

definition float_sub :: "py_float \<Rightarrow> py_float \<Rightarrow> py_float" where
  "float_sub x y = float_add x (float_neg y)"

definition float_mul :: "py_float \<Rightarrow> py_float \<Rightarrow> py_float" where
  "float_mul x y =
     (if x = NaN \<or> y = NaN then NaN
      else if float_is_inf x \<or> float_is_inf y then
        (if float_is_zero x \<or> float_is_zero y then NaN else Infinity (float_sign x \<noteq> float_sign y))
      else if float_val x * float_val y = 0 then float_zero (float_sign x \<noteq> float_sign y)
      else round_double (float_val x * float_val y))"

text \<open>
  \<^verbatim>\<open>x / y\<close> on floats raises for a divisor that is zero; the text of the exception is that of
  CPython 3.11.
\<close>

definition float_truediv :: "py_float \<Rightarrow> py_float \<Rightarrow> py_exception + py_float" where
  "float_truediv x y =
     (if float_is_zero y then Inl (PyException ''ZeroDivisionError'' ''float division by zero'')
      else if x = NaN \<or> y = NaN then Inr NaN
      else if float_is_inf x then
        Inr (if float_is_inf y then NaN else Infinity (float_sign x \<noteq> float_sign y))
      else if float_is_inf y then Inr (float_zero (float_sign x \<noteq> float_sign y))
      else if float_val x = 0 then Inr (float_zero (float_sign x \<noteq> float_sign y))
      else Inr (round_double (float_val x / float_val y)))"

text \<open>\<^verbatim>\<open>float(x)\<close> for a number: an \<^verbatim>\<open>int\<close> beyond the range of the floats raises.\<close>

definition float_of_number :: "py_number \<Rightarrow> py_exception + py_float" where
  "float_of_number x =
     (case x of
        PyFloat f \<Rightarrow> Inr f
      | PyInt n \<Rightarrow>
          (if float_is_inf (round_double (of_int n))
           then Inl (PyException ''OverflowError'' ''int too large to convert to float'')
           else Inr (round_double (of_int n))))"

definition float_is_integer :: "py_float \<Rightarrow> bool" where
  "float_is_integer x =
     (case x of Finite q \<Rightarrow> of_int \<lfloor>q\<rfloor> = q | NegZero \<Rightarrow> True | _ \<Rightarrow> False)"

text \<open>\<^verbatim>\<open>int(x)\<close> for a float that is an integer.\<close>

definition int_of_float :: "py_float \<Rightarrow> int" where
  "int_of_float x = \<lfloor>float_val x\<rfloor>"

text \<open>
  The format \<^verbatim>\<open>f"{x:.df}"\<close> with \<open>d\<close> digits after the point, \<open>d\<close> at least 1: the exact value
  is rounded to \<open>d\<close> decimals, ties to even; the sign is printed for every negative value and
  for the negative zero.
\<close>

definition zero_pad :: "nat \<Rightarrow> string \<Rightarrow> string" where
  "zero_pad d s = replicate (d - length s) (CHR ''0'') @ s"

definition fixed_point :: "nat \<Rightarrow> rat \<Rightarrow> string" where
  "fixed_point d a =
     (let n = nat (round_half_even (a * 10 ^ d))
      in str_nat (n div 10 ^ d) @ ''.'' @ zero_pad d (str_nat (n mod 10 ^ d)))"

definition format_f :: "nat \<Rightarrow> py_float \<Rightarrow> string" where
  "format_f d x =
     (case x of
        Finite q \<Rightarrow> (if q < 0 then ''-'' else []) @ fixed_point d \<bar>q\<bar>
      | NegZero \<Rightarrow> ''-'' @ fixed_point d 0
      | Infinity b \<Rightarrow> (if b then ''-inf'' else ''inf'')
      | NaN \<Rightarrow> ''nan'')"

section \<open>Python's evaluator on arithmetic expressions\<close>

text \<open>
  \<^verbatim>\<open>eval\<close> is Python's own. The calculator below takes the evaluator as a parameter, so that
  what is proved of the calculator for every evaluator holds for Python's. For concrete inputs
  this section gives the evaluator on a fragment of Python's expressions: decimal integer
  and float literals, \<^verbatim>\<open>+ - * /\<close>, unary sign, parentheses, blanks, and the constant
  \<^verbatim>\<open>math.pi\<close> of the \<^verbatim>\<open>math\<close> module that the calculator passes to \<^verbatim>\<open>eval\<close>. Outside the fragment
  (other names, \<^verbatim>\<open>**\<close>, \<^verbatim>\<open>//\<close>, exponents, syntax errors) the answer is \<open>None\<close>: not modelled.
\<close>

datatype token = TNum py_number | TName string | TOp char

definition is_ident_start :: "char \<Rightarrow> bool" where
  "is_ident_start c = (let n = (of_char c :: nat) in (65 \<le> n \<and> n \<le> 90) \<or> (97 \<le> n \<and> n \<le> 122) \<or> n = 95)"

definition is_ident_char :: "char \<Rightarrow> bool" where
  "is_ident_char c = (is_ident_start c \<or> isdecimal c)"

definition nat_of_digits :: "string \<Rightarrow> nat" where
  "nat_of_digits ds = foldl (\<lambda>n c. 10 * n + (of_char c - 48)) 0 ds"

text \<open>
  The value of a literal with integer digits \<open>ip\<close> and, when it has a point, fraction digits
  \<open>fp\<close>. An integer literal with a leading zero is a syntax error unless it is zero, and so
  is, in CPython 3.11, one of more than 4300 digits.
\<close>

definition number_literal :: "string \<Rightarrow> string \<Rightarrow> bool \<Rightarrow> py_number option" where
  "number_literal ip fp has_point =
     (if has_point then
        Some (PyFloat (round_double
          (of_nat (nat_of_digits ip) + of_nat (nat_of_digits fp) / 10 ^ length fp)))
      else if 1 < length ip \<and> hd ip = CHR ''0'' \<and> nat_of_digits ip \<noteq> 0 then None
      else if 4300 < length ip then None
      else Some (PyInt (int (nat_of_digits ip))))"

text \<open>
  One step of the tokenizer on a text that is not empty: the token read, or no token for a
  blank, and the text left; \<open>None\<close> where the text leaves the fragment.
\<close>

definition lex_number :: "string \<Rightarrow> (token option \<times> string) option" where
  "lex_number s =
     (let ip = takeWhile isdecimal s;
          r = dropWhile isdecimal s;
          has_point = (r \<noteq> [] \<and> hd r = CHR ''.'');
          fp = (if has_point then takeWhile isdecimal (tl r) else []);
          rest = (if has_point then dropWhile isdecimal (tl r) else r)
      in if rest \<noteq> [] \<and> is_ident_char (hd rest) then None
         else (case number_literal ip fp has_point of
                 None \<Rightarrow> None
               | Some v \<Rightarrow> Some (Some (TNum v), rest)))"

definition lex_step :: "char \<Rightarrow> string \<Rightarrow> (token option \<times> string) option" where
  "lex_step c cs =
     (if c = CHR '' '' then Some (None, cs)
      else if isdecimal c \<or> (c = CHR ''.'' \<and> cs \<noteq> [] \<and> isdecimal (hd cs)) then lex_number (c # cs)
      else if is_ident_start c then
        Some (Some (TName (takeWhile is_ident_char (c # cs))), dropWhile is_ident_char (c # cs))
      else if c = CHR ''*'' \<or> c = CHR ''/'' then
        (if cs \<noteq> [] \<and> hd cs = c then None else Some (Some (TOp c), cs))
      else if c \<in> set ''+-().'' then Some (Some (TOp c), cs)
      else None)"

fun tokens_from :: "nat \<Rightarrow> string \<Rightarrow> token list option" where
  "tokens_from n [] = Some []"
| "tokens_from 0 (c # cs) = None"
| "tokens_from (Suc n) (c # cs) =
     (case lex_step c cs of
        None \<Rightarrow> None
      | Some (t, rest) \<Rightarrow>
          (case tokens_from n rest of
             None \<Rightarrow> None
           | Some ts \<Rightarrow> Some (case t of None \<Rightarrow> ts | Some tok \<Rightarrow> tok # ts)))"

definition tokenize :: "string \<Rightarrow> token list option" where
  "tokenize s = tokens_from (length s) s"

datatype expr = ENum py_number | EMathPi | ENeg expr | EPos expr | EBin char expr expr

text \<open>
  The grammar, as in Python's: a sum is terms joined by \<^verbatim>\<open>+\<close> and \<^verbatim>\<open>-\<close>, a term is factors
  joined by \<^verbatim>\<open>*\<close> and \<^verbatim>\<open>/\<close>, both to the left; a factor is a signed factor, a literal,
  \<^verbatim>\<open>math.pi\<close> or a sum in parentheses. The first argument bounds the depth of the recursion.
\<close>

fun parse_sum :: "nat \<Rightarrow> token list \<Rightarrow> (expr \<times> token list) option"
  and sum_rest :: "nat \<Rightarrow> expr \<Rightarrow> token list \<Rightarrow> (expr \<times> token list) option"
  and parse_term :: "nat \<Rightarrow> token list \<Rightarrow> (expr \<times> token list) option"
  and term_rest :: "nat \<Rightarrow> expr \<Rightarrow> token list \<Rightarrow> (expr \<times> token list) option"
  and parse_factor :: "nat \<Rightarrow> token list \<Rightarrow> (expr \<times> token list) option"
where
  "parse_sum 0 ts = None"
| "parse_sum (Suc n) ts =
     (case parse_term n ts of None \<Rightarrow> None | Some (l, r) \<Rightarrow> sum_rest n l r)"
| "sum_rest 0 l ts = None"
| "sum_rest (Suc n) l [] = Some (l, [])"
| "sum_rest (Suc n) l (t # r) =
     (if t = TOp (CHR ''+'') \<or> t = TOp (CHR ''-'') then
        (case parse_term n r of
           None \<Rightarrow> None
         | Some (e, r') \<Rightarrow> sum_rest n (EBin (case t of TOp c \<Rightarrow> c | _ \<Rightarrow> CHR ''+'') l e) r')
      else Some (l, t # r))"
| "parse_term 0 ts = None"
| "parse_term (Suc n) ts =
     (case parse_factor n ts of None \<Rightarrow> None | Some (l, r) \<Rightarrow> term_rest n l r)"
| "term_rest 0 l ts = None"
| "term_rest (Suc n) l [] = Some (l, [])"
| "term_rest (Suc n) l (t # r) =
     (if t = TOp (CHR ''*'') \<or> t = TOp (CHR ''/'') then
        (case parse_factor n r of
           None \<Rightarrow> None
         | Some (e, r') \<Rightarrow> term_rest n (EBin (case t of TOp c \<Rightarrow> c | _ \<Rightarrow> CHR ''*'') l e) r')
      else Some (l, t # r))"
| "parse_factor 0 ts = None"
| "parse_factor (Suc n) [] = None"
| "parse_factor (Suc n) (t # r) =
     (if t = TOp (CHR ''-'') then
        (case parse_factor n r of None \<Rightarrow> None | Some (e, r') \<Rightarrow> Some (ENeg e, r'))
      else if t = TOp (CHR ''+'') then
        (case parse_factor n r of None \<Rightarrow> None | Some (e, r') \<Rightarrow> Some (EPos e, r'))
      else if t = TOp (CHR ''('') then
        (case parse_sum n r of
           None \<Rightarrow> None
         | Some (e, r') \<Rightarrow>
             (if r' \<noteq> [] \<and> hd r' = TOp (CHR '')'') then Some (e, tl r') else None))
      else if t = TName ''math'' then
        (if take 2 r = [TOp (CHR ''.''), TName ''pi''] then Some (EMathPi, drop 2 r) else None)
      else (case t of TNum v \<Rightarrow> Some (ENum v, r) | _ \<Rightarrow> None))"

definition parse_expression :: "token list \<Rightarrow> expr option" where
  "parse_expression ts =
     (case parse_sum (4 * length ts + 4) ts of
        None \<Rightarrow> None
      | Some (e, r) \<Rightarrow> if r = [] then Some e else None)"

text \<open>
  \<^verbatim>\<open>a / b\<close> on integers is the quotient rounded once; it raises for a zero divisor and for a
  quotient beyond the floats. The texts of the exceptions are those of CPython 3.11.
\<close>

definition int_truediv :: "int \<Rightarrow> int \<Rightarrow> py_exception + py_float" where
  "int_truediv a b =
     (if b = 0 then Inl (PyException ''ZeroDivisionError'' ''division by zero'')
      else if a = 0 then Inr (float_zero (b < 0))
      else if float_is_inf (round_double (of_int a / of_int b))
        then Inl (PyException ''OverflowError'' ''integer division result too large for a float'')
      else Inr (round_double (of_int a / of_int b)))"

definition float_arith :: "char \<Rightarrow> py_float \<Rightarrow> py_float \<Rightarrow> py_exception + py_float" where
  "float_arith op x y =
     (if op = CHR ''+'' then Inr (float_add x y)
      else if op = CHR ''-'' then Inr (float_sub x y)
      else if op = CHR ''*'' then Inr (float_mul x y)
      else float_truediv x y)"

definition py_arith :: "char \<Rightarrow> py_number \<Rightarrow> py_number \<Rightarrow> py_exception + py_number" where
  "py_arith op x y =
     (case (x, y) of
        (PyInt a, PyInt b) \<Rightarrow>
          (if op = CHR ''+'' then Inr (PyInt (a + b))
           else if op = CHR ''-'' then Inr (PyInt (a - b))
           else if op = CHR ''*'' then Inr (PyInt (a * b))
           else (case int_truediv a b of Inl e \<Rightarrow> Inl e | Inr f \<Rightarrow> Inr (PyFloat f)))
      | _ \<Rightarrow>
          (case float_of_number x of
             Inl e \<Rightarrow> Inl e
           | Inr fx \<Rightarrow>
               (case float_of_number y of
                  Inl e \<Rightarrow> Inl e
                | Inr fy \<Rightarrow>
                    (case float_arith op fx fy of Inl e \<Rightarrow> Inl e | Inr f \<Rightarrow> Inr (PyFloat f)))))"

definition math_pi :: py_float where
  "math_pi = Finite (884279719003555 / 2 ^ 48)"

fun eval_expr :: "expr \<Rightarrow> py_exception + py_number" where
  "eval_expr (ENum v) = Inr v"
| "eval_expr EMathPi = Inr (PyFloat math_pi)"
| "eval_expr (ENeg e) =
     (case eval_expr e of
        Inl x \<Rightarrow> Inl x
      | Inr (PyInt n) \<Rightarrow> Inr (PyInt (- n))
      | Inr (PyFloat f) \<Rightarrow> Inr (PyFloat (float_neg f)))"
| "eval_expr (EPos e) = eval_expr e"
| "eval_expr (EBin op l r) =
     (case eval_expr l of
        Inl x \<Rightarrow> Inl x
      | Inr a \<Rightarrow> (case eval_expr r of Inl x \<Rightarrow> Inl x | Inr b \<Rightarrow> py_arith op a b))"

definition arith_eval :: "string \<Rightarrow> (py_exception + py_value) option" where
  "arith_eval s =
     (case tokenize s of
        None \<Rightarrow> None
      | Some ts \<Rightarrow>
          (case parse_expression ts of
             None \<Rightarrow> None
           | Some e \<Rightarrow>
               Some (case eval_expr e of Inl x \<Rightarrow> Inl x | Inr v \<Rightarrow> Inr (Number v))))"

text \<open>
  An evaluator that is Python's on the fragment. Outside the fragment the model does not know
  Python's answer; the exception returned there is a placeholder, and no theorem looks at it.
\<close>

definition python_eval :: "string \<Rightarrow> py_exception + py_value" where
  "python_eval s =
     (case arith_eval s of Some r \<Rightarrow> r | None \<Rightarrow> Inl (PyException ''NotModelled'' s))"

section \<open>Vector store (src/vector\_store.py)\<close>

text \<open>
  A LangChain \<^verbatim>\<open>Document\<close>; the metadata values the repository stores are strings. The vector
  database (Chroma or FAISS) is external: a store is what its \<^verbatim>\<open>similarity_search\<close> answers,
  together with the truth value of the store object, which \<^verbatim>\<open>not self.vector_store\<close> asks for.
\<close>

record document =
  page_content :: string
  metadata :: "string \<rightharpoonup> string"

record vector_db =
  vs_truth :: bool
  vs_search :: "string \<Rightarrow> int \<Rightarrow> py_exception + document list"

record VectorStoreManager =
  vector_db_type :: string
  embedding_model_name :: string
  vector_store :: "vector_db option"

text \<open>\<^verbatim>\<open>__init__\<close>: the arguments default to the settings \<^verbatim>\<open>chroma\<close> and the MiniLM model.\<close>

definition VectorStoreManager_init :: "string option \<Rightarrow> string option \<Rightarrow> VectorStoreManager" where
  "VectorStoreManager_init db_type model =
     \<lparr> vector_db_type = (case db_type of None \<Rightarrow> ''chroma'' | Some [] \<Rightarrow> ''chroma'' | Some t \<Rightarrow> t),
       embedding_model_name =
         (case model of None \<Rightarrow> ''sentence-transformers/all-MiniLM-L6-v2''
          | Some [] \<Rightarrow> ''sentence-transformers/all-MiniLM-L6-v2'' | Some m \<Rightarrow> m),
       vector_store = None \<rparr>"

text \<open>
  \<^verbatim>\<open>initialize_vector_store\<close>: \<open>create_chroma\<close> and \<open>create_faiss\<close> stand for
  \<^verbatim>\<open>Chroma.from_documents\<close> and \<^verbatim>\<open>FAISS.from_documents\<close>. The field is assigned only when the
  creation returns.
\<close>

definition initialize_vector_store ::
  "(document list \<Rightarrow> py_exception + vector_db) \<Rightarrow> (document list \<Rightarrow> py_exception + vector_db) \<Rightarrow>
   VectorStoreManager \<Rightarrow> document list \<Rightarrow> py_exception + (vector_db \<times> VectorStoreManager)" where
  "initialize_vector_store create_chroma create_faiss m documents =
     (if lower (vector_db_type m) = ''chroma'' then
        (case create_chroma documents of Inl e \<Rightarrow> Inl e
         | Inr vs \<Rightarrow> Inr (vs, m\<lparr>vector_store := Some vs\<rparr>))
      else if lower (vector_db_type m) = ''faiss'' then
        (case create_faiss documents of Inl e \<Rightarrow> Inl e
         | Inr vs \<Rightarrow> Inr (vs, m\<lparr>vector_store := Some vs\<rparr>))
      else Inl (PyException ''ValueError'' (''Unsupported vector database type: '' @ vector_db_type m)))"

definition similarity_search :: "VectorStoreManager \<Rightarrow> string \<Rightarrow> int \<Rightarrow> py_exception + document list" where
  "similarity_search m query k =
     (case vector_store m of
        None \<Rightarrow> Inl (PyException ''ValueError'' ''Vector store not initialized'')
      | Some vs \<Rightarrow> if vs_truth vs then vs_search vs query k
                 else Inl (PyException ''ValueError'' ''Vector store not initialized''))"

section \<open>The agent (financial\_agent.py)\<close>

datatype message = HumanMessage string | AIMessage string

text \<open>
  The LLM clients and LangChain's agent executor are external. A client is what its
  \<^verbatim>\<open>chat_with_system_prompt\<close> answers to a system prompt and a user message; an executor is what
  \<^verbatim>\<open>invoke\<close> answers to the input and the chat history: the \<^verbatim>\<open>output\<close> entry of the returned
  dictionary, if it has one. Both may raise.
\<close>

type_synonym llm_client = "string \<Rightarrow> string \<Rightarrow> py_exception + string"

type_synonym executor = "string \<Rightarrow> message list \<Rightarrow> py_exception + string option"

record FinancialRAGAgent =
  use_openai :: bool
  use_ollama :: bool
  enable_rag :: bool
  enable_tools :: bool
  openai_client :: "llm_client option"
  ollama_client :: "llm_client option"
  vector_store_manager :: "VectorStoreManager option"
  agent_vector_store :: "vector_db option"
  tools :: "string list"
  conversation_history :: "message list"
  agent_executor :: "executor option"

record analysis_result =
  query :: string
  context_used :: string
  response :: string
  sources :: "string list"
  analysis_method :: string

text \<open>
  The body of the loop of \<^verbatim>\<open>retrieve_relevant_context\<close>: the text appended to
  \<^verbatim>\<open>context_parts\<close> for the document \<open>doc\<close> numbered \<open>i\<close>.
\<close>

definition metadata_info :: "document \<Rightarrow> string list" where
  "metadata_info doc =
     (case metadata doc ''company'' of Some c \<Rightarrow> [''Company: '' @ c] | None \<Rightarrow> []) @
     (case metadata doc ''date'' of Some d \<Rightarrow> [''Date: '' @ d] | None \<Rightarrow> [])"

definition context_part :: "nat \<Rightarrow> document \<Rightarrow> string" where
  "context_part i doc =
     ''['' @ str_nat i @ ''] '' @ page_content doc @ '' ('' @ join '' | '' (metadata_info doc) @ '')''"

text \<open>
  The loop over \<^verbatim>\<open>enumerate(docs, 1)\<close>: \<open>i\<close> is the running number, \<open>context_parts\<close> the
  list built so far.
\<close>

fun context_loop :: "nat \<Rightarrow> document list \<Rightarrow> string list \<Rightarrow> string list" where
  "context_loop i [] context_parts = context_parts"
| "context_loop i (doc # docs) context_parts =
     context_loop (Suc i) docs (context_parts @ [context_part i doc])"

definition assemble_context :: "document list \<Rightarrow> string" where
  "assemble_context docs = join ''\<newline>\<newline>'' (context_loop 1 docs [])"

definition retrieve_relevant_context :: "FinancialRAGAgent \<Rightarrow> string \<Rightarrow> int \<Rightarrow> py_exception + string" where
  "retrieve_relevant_context a q k =
     (case (vector_store_manager a, agent_vector_store a) of
        (Some vsm, Some vs) \<Rightarrow>
          (if \<not> vs_truth vs then Inr []
           else (case similarity_search vsm q k of
                   Inl e \<Rightarrow> Inr []
                 | Inr docs \<Rightarrow> Inr (assemble_context docs)))
      | _ \<Rightarrow> Inr [])"

text \<open>The direct chat completion after the comment \<^verbatim>\<open># Fallback to direct LLM\<close>.\<close>

definition direct_llm :: "FinancialRAGAgent \<Rightarrow> string \<Rightarrow> py_exception + string" where
  "direct_llm a prompt =
     (case (case openai_client a of
              Some openai \<Rightarrow> openai ''You are a financial analysis expert.'' prompt
            | None \<Rightarrow>
               (case ollama_client a of
                  Some ollama \<Rightarrow> ollama ''You are a financial analysis expert.'' prompt
                | None \<Rightarrow> Inr ''No LLM client available''))
      of Inl e \<Rightarrow> Inr (''LLM error: '' @ exc_str e)
       | Inr r \<Rightarrow> Inr r)"

definition last_turns :: "nat \<Rightarrow> message list \<Rightarrow> message list" where
  "last_turns n h = drop (length h - n) h"

definition get_llm_response :: "FinancialRAGAgent \<Rightarrow> string \<Rightarrow> bool \<Rightarrow> py_exception + string" where
  "get_llm_response a prompt use_agent =
     (case (if use_agent then agent_executor a else None) of
        Some ex \<Rightarrow>
          (if enable_tools a then
             (case ex prompt (last_turns 10 (conversation_history a)) of
                Inr out \<Rightarrow> Inr (case out of Some s \<Rightarrow> s | None \<Rightarrow> ''No response generated'')
              | Inl e \<Rightarrow> direct_llm a prompt)
           else direct_llm a prompt)
      | None \<Rightarrow> direct_llm a prompt)"

definition enhance_query :: "string \<Rightarrow> string \<Rightarrow> string" where
  "enhance_query user_query ctx =
     ''\<newline>            User Question: '' @ user_query @
     ''\<newline>\<newline>            Relevant Context:\<newline>            '' @ ctx @
     ''\<newline>\<newline>            Please analyze this query using the provided context and your financial expertise.\<newline>            ''"

definition analyze_query ::
  "FinancialRAGAgent \<Rightarrow> string \<Rightarrow> py_exception + (analysis_result \<times> FinancialRAGAgent)" where
  "analyze_query a user_query =
     (case (if enable_rag a then retrieve_relevant_context a user_query 5 else Inr []) of
        Inl e \<Rightarrow> Inl e
      | Inr ctx \<Rightarrow>
          (let enhanced_query = (if ctx \<noteq> [] then enhance_query user_query ctx else user_query)
           in case get_llm_response a enhanced_query True of
                Inl e \<Rightarrow> Inl e
              | Inr resp \<Rightarrow>
                  Inr (\<lparr> query = user_query, context_used = ctx, response = resp, sources = [],
                          analysis_method = ''hybrid'' \<rparr>,
                       a\<lparr>conversation_history :=
                           conversation_history a @ [HumanMessage user_query] @ [AIMessage resp]\<rparr>)))"

section \<open>Calculator tools (src/agent\_tools.py)\<close>

subsection \<open>The percentage rewriting\<close>

text \<open>
  The two \<^verbatim>\<open>re.sub\<close> calls of \<^verbatim>\<open>financial_calculator\<close> use the patterns
  \<^verbatim>\<open>(\d+(?:\.\d+)?)%\s+of\s+(\d+(?:\.\d+)?)\<close> and \<^verbatim>\<open>(\d+(?:\.\d+)?)%\<close>. A number
  \<^verbatim>\<open>\d+(?:\.\d+)?\<close> at the head of a text is matched greedily: all the digits, then a point
  with all the digits after it when at least one digit follows the point. In both patterns
  the number is followed by a fixed character or ends the pattern, so a shorter match of the
  number never helps and the greedy one is the only one to try. The same holds for \<^verbatim>\<open>\s+\<close>,
  which is followed by \<^verbatim>\<open>o\<close> or by a digit.
\<close>

definition match_number :: "string \<Rightarrow> (string \<times> string) option" where
  "match_number s =
     (let ds = takeWhile isdecimal s; r = dropWhile isdecimal s
      in if ds = [] then None
         else if r \<noteq> [] \<and> hd r = CHR ''.'' \<and> tl r \<noteq> [] \<and> isdecimal (hd (tl r))
           then Some (ds @ ''.'' @ takeWhile isdecimal (tl r), dropWhile isdecimal (tl r))
         else Some (ds, r))"

definition match_spaces :: "string \<Rightarrow> string option" where
  "match_spaces s = (if s \<noteq> [] \<and> isspace (hd s) then Some (dropWhile isspace s) else None)"

text \<open>The first pattern at the head of a text: the two groups and the text after the match.\<close>

definition match_percent_of :: "string \<Rightarrow> (string \<times> string \<times> string) option" where
  "match_percent_of s =
     (case match_number s of
        None \<Rightarrow> None
      | Some (g1, r1) \<Rightarrow>
          (if r1 \<noteq> [] \<and> hd r1 = CHR ''%'' then
             (case match_spaces (tl r1) of
                None \<Rightarrow> None
              | Some r2 \<Rightarrow>
                  (if take 2 r2 = ''of'' then
                     (case match_spaces (drop 2 r2) of
                        None \<Rightarrow> None
                      | Some r3 \<Rightarrow>
                          (case match_number r3 of
                             None \<Rightarrow> None
                           | Some (g2, r4) \<Rightarrow> Some (g1, g2, r4)))
                   else None))
           else None))"

text \<open>The second pattern at the head of a text: the group and the text after the match.\<close>

definition match_percent :: "string \<Rightarrow> (string \<times> string) option" where
  "match_percent s =
     (case match_number s of
        None \<Rightarrow> None
      | Some (g1, r1) \<Rightarrow> (if r1 \<noteq> [] \<and> hd r1 = CHR ''%'' then Some (g1, tl r1) else None))"

text \<open>
  \<^verbatim>\<open>re.sub\<close> goes through the text from the left: where the pattern matches, the match is
  replaced and the scan goes on after it; elsewhere the character is kept. A matcher gives
  the replacement and the text after the match. (A match that consumes nothing is replaced
  and the scan moves on by one character; the two patterns here never match that way.)
\<close>

fun re_sub :: "(string \<Rightarrow> (string \<times> string) option) \<Rightarrow> string \<Rightarrow> string" where
  "re_sub m [] = []"
| "re_sub m (c # cs) =
     (case m (c # cs) of
        None \<Rightarrow> c # re_sub m cs
      | Some (repl, rest) \<Rightarrow>
          if length rest \<le> length cs then repl @ re_sub m rest else repl @ c # re_sub m cs)"

text \<open>The two substitutions, with the templates \<^verbatim>\<open>(\1/100) * \2\<close> and \<^verbatim>\<open>(\1/100)\<close>.\<close>

definition percent_of_matcher :: "string \<Rightarrow> (string \<times> string) option" where
  "percent_of_matcher s =
     (case match_percent_of s of
        None \<Rightarrow> None
      | Some (g1, g2, rest) \<Rightarrow> Some (''('' @ g1 @ ''/100) * '' @ g2, rest))"

definition percent_matcher :: "string \<Rightarrow> (string \<times> string) option" where
  "percent_matcher s =
     (case match_percent s of
        None \<Rightarrow> None
      | Some (g1, rest) \<Rightarrow> Some (''('' @ g1 @ ''/100)'', rest))"

subsection \<open>The calculator\<close>

definition allowed_chars :: "char set" where
  "allowed_chars = set ''0123456789+-*/.() ''"

text \<open>\<^verbatim>\<open>replace('**', '^')\<close> and \<^verbatim>\<open>replace('^', '**')\<close>, from the left, without overlap.\<close>

fun replace_pow :: "string \<Rightarrow> string" where
  "replace_pow [] = []"
| "replace_pow [c] = [c]"
| "replace_pow (c # d # cs) =
     (if c = CHR ''*'' \<and> d = CHR ''*'' then CHR ''^'' # replace_pow cs else c # replace_pow (d # cs))"

definition replace_caret :: "string \<Rightarrow> string" where
  "replace_caret s = concat (map (\<lambda>c. if c = CHR ''^'' then ''**'' else [c]) s)"

text \<open>Lines 91 to 97: the expression after \<^verbatim>\<open>strip\<close> and the percentage rewriting.\<close>

definition prepare_expression :: "string \<Rightarrow> string" where
  "prepare_expression expression =
     (let e = strip expression
      in if CHR ''%'' \<in> set e then re_sub percent_matcher (re_sub percent_of_matcher e) else e)"

text \<open>Lines 100 and 101: the safety check.\<close>

definition safety_check :: "string \<Rightarrow> bool" where
  "safety_check e = list_all (\<lambda>c. c \<in> allowed_chars \<or> isalnum c) (replace_pow e)"

text \<open>
  What the calculator does with an expression before line 105: it returns the error text
  of line 102, or it goes on and calls \<^verbatim>\<open>eval\<close> on the text given.
\<close>

datatype calc_gate = Invalid | Evaluate string

definition calculator_gate :: "string \<Rightarrow> calc_gate" where
  "calculator_gate expression =
     (let e = prepare_expression expression
      in if \<not> safety_check e then Invalid else Evaluate (replace_caret e))"

text \<open>
  Lines 107 to 113: the text returned for the value of \<^verbatim>\<open>eval\<close>. A value that is neither a
  float nor an int goes through \<^verbatim>\<open>str\<close>.
\<close>

definition render_result :: "py_value \<Rightarrow> py_exception + string" where
  "render_result v =
     (case v of
        Number (PyFloat f) \<Rightarrow>
          (if float_is_integer f then py_str_int (int_of_float f)
           else Inr (rstrip (CHR ''.'') (rstrip (CHR ''0'') (format_f 4 f))))
      | Number (PyInt n) \<Rightarrow> py_str_int n
      | Object s \<Rightarrow> Inr s)"

text \<open>
  \<^verbatim>\<open>financial_calculator\<close>; \<open>ev\<close> is \<^verbatim>\<open>eval\<close> with the globals of line 105. Every exception is
  caught by the handler of line 115.
\<close>

definition financial_calculator ::
  "(string \<Rightarrow> py_exception + py_value) \<Rightarrow> string \<Rightarrow> py_exception + string" where
  "financial_calculator ev expression =
     (case calculator_gate expression of
        Invalid \<Rightarrow> Inr ''Error: Invalid characters in expression''
      | Evaluate e \<Rightarrow>
          (case (case ev e of Inl x \<Rightarrow> Inl x | Inr v \<Rightarrow> render_result v) of
             Inl x \<Rightarrow> Inr (''Calculation error: '' @ exc_str x)
           | Inr s \<Rightarrow> Inr s))"

text \<open>
  The allow-list in the words of the specification: digits, the operators
  \<^verbatim>\<open>+ - * / ( ) . %\<close> and whitespace.
\<close>

definition spec_allow_list :: "char \<Rightarrow> bool" where
  "spec_allow_list c = (isdecimal c \<or> c \<in> set ''+-*/().%'' \<or> isspace c)"

text \<open>
  A matcher keeps a character when every match of a text with that character leaves it in
  the replacement or in the text after the match.
\<close>

definition keeps :: "(string \<Rightarrow> (string \<times> string) option) \<Rightarrow> char \<Rightarrow> bool" where
  "keeps m c =
     (\<forall>s repl rest. m s = Some (repl, rest) \<longrightarrow> c \<in> set s \<longrightarrow> c \<in> set repl \<or> c \<in> set rest)"

subsection \<open>The ratio calculator\<close>

text \<open>
  The keyword arguments are numbers by name; \<^verbatim>\<open>kwargs.get(k, 0)\<close> is the number given for
  \<open>k\<close>, or the integer 0.
\<close>

definition kwargs_get :: "(string \<rightharpoonup> py_number) \<Rightarrow> string \<Rightarrow> py_number" where
  "kwargs_get kwargs k = (case kwargs k of None \<Rightarrow> PyInt 0 | Some v \<Rightarrow> v)"

definition pe_ratio :: "(string \<rightharpoonup> py_number) \<Rightarrow> py_exception + string" where
  "pe_ratio kwargs =
     (case float_of_number (kwargs_get kwargs ''price'') of
        Inl e \<Rightarrow> Inl e
      | Inr price \<Rightarrow>
          (case float_of_number (kwargs_get kwargs ''earnings_per_share'') of
             Inl e \<Rightarrow> Inl e
           | Inr eps \<Rightarrow>
               if float_is_zero eps then Inr ''P/E Ratio: Cannot calculate (EPS is zero)''
               else (case float_truediv price eps of
                       Inl e \<Rightarrow> Inl e
                     | Inr pe \<Rightarrow> Inr (''P/E Ratio: '' @ format_f 2 pe))))"

definition roe :: "(string \<rightharpoonup> py_number) \<Rightarrow> py_exception + string" where
  "roe kwargs =
     (case float_of_number (kwargs_get kwargs ''net_income'') of
        Inl e \<Rightarrow> Inl e
      | Inr net_income \<Rightarrow>
          (case float_of_number (kwargs_get kwargs ''shareholders_equity'') of
             Inl e \<Rightarrow> Inl e
           | Inr equity \<Rightarrow>
               if float_is_zero equity then Inr ''ROE: Cannot calculate (Equity is zero)''
               else (case float_truediv net_income equity of
                       Inl e \<Rightarrow> Inl e
                     | Inr r \<Rightarrow> Inr (''ROE: '' @ format_f 2 (float_mul r (Finite 100)) @ ''%''))))"

definition financial_ratio_calculator ::
  "string \<Rightarrow> (string \<rightharpoonup> py_number) \<Rightarrow> py_exception + string" where
  "financial_ratio_calculator metric_type kwargs =
     (case (if lower metric_type = ''pe_ratio'' then pe_ratio kwargs
            else if lower metric_type = ''roe'' then roe kwargs
            else Inr (''Unsupported metric type: '' @ metric_type))
      of Inl e \<Rightarrow> Inr (''Calculation error: '' @ exc_str e)
       | Inr s \<Rightarrow> Inr s)"

section \<open>Guardrails (src/guardrails.py)\<close>

text \<open>
  The disclaimer of \<^verbatim>\<open>FinancialGuardrails.__init__\<close>. Its warning sign (U+26A0 U+FE0F) lies beyond
  the characters of the model and is written as the six bytes of its UTF-8 encoding.
\<close>

definition warning_sign :: string where
  "warning_sign = [CHR 0xE2, CHR 0x9A, CHR 0xA0, CHR 0xEF, CHR 0xB8, CHR 0x8F]"

definition financial_disclaimer :: string where
  "financial_disclaimer =
     ''\<newline>        '' @ warning_sign @
     '' **Disclaimer**: This analysis is for educational purposes only. \<newline>'' @
     ''        Not financial advice. Consult qualified advisors before investing.\<newline>        ''"

text \<open>
  The two advice patterns are a fixed text followed by one of three alternatives, so
  \<^verbatim>\<open>re.search\<close> of such a pattern is a search for one of three pieces of text.
\<close>

definition advice_patterns :: "(string \<times> string list) list" where
  "advice_patterns =
     [(''you should '', [''buy'', ''sell'', ''invest'']),
      (''definitely '', [''buy'', ''sell'', ''invest''])]"

definition re_search :: "string \<times> string list \<Rightarrow> string \<Rightarrow> bool" where
  "re_search pattern s = list_ex (\<lambda>alt. contains (fst pattern @ alt) s) (snd pattern)"

definition investment_terms :: "string list" where
  "investment_terms = [''invest'', ''buy'', ''sell'', ''portfolio'', ''stock'']"

text \<open>The result is the triple (allowed, modified response, warnings).\<close>

definition check_output_safety :: "string \<Rightarrow> bool \<times> string \<times> string" where
  "check_output_safety resp =
     (let contains_advice = list_ex (\<lambda>pattern. re_search pattern (lower resp)) advice_patterns;
          mentions_investments = list_ex (\<lambda>term. contains term (lower resp)) investment_terms
      in if (contains_advice \<or> mentions_investments) \<and> \<not> contains ''disclaimer'' (lower resp)
         then (True, resp @ ''\<newline>\<newline>'' @ financial_disclaimer,
               join ''; '' [''Financial disclaimer added''])
         else (True, resp, join ''; '' []))"

section \<open>Database tool and market sentiment (src/agent\_tools.py)\<close>

text \<open>
  A pandas \<^verbatim>\<open>DataFrame\<close> as far as the code looks at it: column names and rows of cells.
  \<^verbatim>\<open>len\<close> counts the rows, \<^verbatim>\<open>empty\<close> holds when an axis has length 0, \<^verbatim>\<open>head(n)\<close> keeps the
  first \<open>n\<close> rows.
\<close>

record dataframe =
  columns :: "string list"
  rows :: "string list list"

definition df_len :: "dataframe \<Rightarrow> nat" where
  "df_len df = length (rows df)"

definition df_empty :: "dataframe \<Rightarrow> bool" where
  "df_empty df = (rows df = [] \<or> columns df = [])"

definition df_head :: "nat \<Rightarrow> dataframe \<Rightarrow> dataframe" where
  "df_head n df = df\<lparr>rows := take n (rows df)\<rparr>"

text \<open>
  SQLite and pandas are external. \<open>'w\<close> is the state of the files and the database;
  \<open>sqlite_connect\<close> may raise, \<open>load_csv_tables\<close> is the guarded body of
  \<^verbatim>\<open>setup_database\<close> (whatever it raises is caught and printed there), \<open>read_sql_query\<close> is
  the connect, read and close of \<^verbatim>\<open>query_database\<close> on the database file and the SQL text,
  \<open>to_string\<close> is \<^verbatim>\<open>DataFrame.to_string(index=False)\<close>.
\<close>

record 'w db_env =
  sqlite_connect :: "'w \<Rightarrow> string \<Rightarrow> py_exception + unit"
  load_csv_tables :: "'w \<Rightarrow> string \<Rightarrow> 'w"
  read_sql_query :: "'w \<Rightarrow> string \<Rightarrow> string \<Rightarrow> py_exception + dataframe"
  to_string :: "dataframe \<Rightarrow> py_exception + string"

record FinancialDatabaseTool =
  db_path :: string

definition setup_database :: "'w db_env \<Rightarrow> 'w \<Rightarrow> FinancialDatabaseTool \<Rightarrow> py_exception + 'w" where
  "setup_database env w tool =
     (case sqlite_connect env w (db_path tool) of
        Inl e \<Rightarrow> Inl e
      | Inr u \<Rightarrow> Inr (load_csv_tables env w (db_path tool)))"

definition FinancialDatabaseTool_init ::
  "'w db_env \<Rightarrow> 'w \<Rightarrow> string \<Rightarrow> py_exception + (FinancialDatabaseTool \<times> 'w)" where
  "FinancialDatabaseTool_init env w path =
     (case setup_database env w \<lparr>db_path = path\<rparr> of
        Inl e \<Rightarrow> Inl e
      | Inr w' \<Rightarrow> Inr (\<lparr>db_path = path\<rparr>, w'))"

definition query_database ::
  "'w db_env \<Rightarrow> 'w \<Rightarrow> FinancialDatabaseTool \<Rightarrow> string \<Rightarrow> py_exception + string" where
  "query_database env w tool sql =
     (case (case read_sql_query env w (db_path tool) sql of
              Inl e \<Rightarrow> Inl e
            | Inr result \<Rightarrow>
                if df_empty result then Inr ''No results found for the query.''
                else if df_len result > 10 then
                  (case to_string env (df_head 10 result) of
                     Inl e \<Rightarrow> Inl e
                   | Inr result_str \<Rightarrow>
                       Inr (result_str @ ''\<newline>... (showing first 10 of '' @
                            str_nat (df_len result) @ '' results)''))
                else to_string env result)
      of Inl e \<Rightarrow> Inr (''Database error: '' @ exc_str e)
       | Inr s \<Rightarrow> Inr s)"

text \<open>\<^verbatim>\<open>if company:\<close> holds for a string that is given and not empty.\<close>

definition truthy :: "string option \<Rightarrow> bool" where
  "truthy s = (case s of None \<Rightarrow> False | Some t \<Rightarrow> t \<noteq> [])"

definition sentiment_conditions :: "string option \<Rightarrow> string option \<Rightarrow> string list" where
  "sentiment_conditions company sector =
     (if truthy company then [''company = '' @ [CHR 0x27] @ the company @ [CHR 0x27]] else []) @
     (if truthy sector then [''sector = '' @ [CHR 0x27] @ the sector @ [CHR 0x27]] else [])"

definition sentiment_query :: "string option \<Rightarrow> string option \<Rightarrow> string" where
  "sentiment_query company sector =
     (let conditions = sentiment_conditions company sector;
          where_clause = (if conditions \<noteq> [] then join '' AND '' conditions else ''1=1'')
      in ''\<newline>        SELECT sentiment, COUNT(*) as count, AVG(sentiment_score) as avg_score'' @
         ''\<newline>        FROM financial_news '' @
         ''\<newline>        WHERE '' @ where_clause @
         ''\<newline>        GROUP BY sentiment'' @
         ''\<newline>        ORDER BY count DESC'' @
         ''\<newline>        '')"

definition get_market_sentiment ::
  "'w db_env \<Rightarrow> 'w \<Rightarrow> string option \<Rightarrow> string option \<Rightarrow> int \<Rightarrow> py_exception + string" where
  "get_market_sentiment env w company sector days =
     (case (case FinancialDatabaseTool_init env w ''financial_data.db'' of
              Inl e \<Rightarrow> Inl e
            | Inr (db_tool, w') \<Rightarrow>
                (case query_database env w' db_tool (sentiment_query company sector) of
                   Inl e \<Rightarrow> Inl e
                 | Inr result \<Rightarrow> Inr (''Market sentiment analysis:\<newline>'' @ result)))
      of Inl e \<Rightarrow> Inr (''Sentiment analysis error: '' @ exc_str e)
       | Inr s \<Rightarrow> Inr s)"

section \<open>The context format in the words of the specification\<close>

text \<open>
  The specification of the context assembler: each chunk numbered \<open>[i]\<close>, followed by its
  content and a pipe-separated rendering of the company and date metadata fields when present.
  These two definitions follow those words; the theorems compare them with the loop of the
  code.
\<close>

definition spec_metadata :: "document \<Rightarrow> string" where
  "spec_metadata d =
     (case (metadata d ''company'', metadata d ''date'') of
        (Some c, Some t) \<Rightarrow> ''Company: '' @ c @ '' | '' @ ''Date: '' @ t
      | (Some c, None) \<Rightarrow> ''Company: '' @ c
      | (None, Some t) \<Rightarrow> ''Date: '' @ t
      | (None, None) \<Rightarrow> [])"

definition spec_chunk :: "nat \<Rightarrow> document \<Rightarrow> string" where
  "spec_chunk i d = ''['' @ str_nat i @ ''] '' @ page_content d @ '' ('' @ spec_metadata d @ '')''"

section \<open>Example inputs\<close>

definition example_docs :: "document list" where
  "example_docs =
     [\<lparr>page_content = ''Alpha rises'',
        metadata = [''company'' \<mapsto> ''Alpha'', ''date'' \<mapsto> ''2024-01-02'']\<rparr>,
      \<lparr>page_content = ''Beta falls'', metadata = Map.empty\<rparr>]"

definition example_store :: vector_db where
  "example_store = \<lparr>vs_truth = True, vs_search = (\<lambda>q k. Inr example_docs)\<rparr>"

definition example_agent :: "llm_client option \<Rightarrow> llm_client option \<Rightarrow> FinancialRAGAgent" where
  "example_agent openai ollama =
     \<lparr>use_openai = True, use_ollama = True, enable_rag = True, enable_tools = False,
      openai_client = openai, ollama_client = ollama,
      vector_store_manager =
        Some \<lparr>vector_db_type = ''chroma'', embedding_model_name = ''model'',
              vector_store = Some example_store\<rparr>,
      agent_vector_store = Some example_store, tools = [],
      conversation_history = [], agent_executor = None\<rparr>"

text \<open>
  Python's \<^verbatim>\<open>eval\<close> on the imaginary literal \<^verbatim>\<open>0.123456j\<close> returns the complex number
  whose \<^verbatim>\<open>str\<close> is that same text; elsewhere this evaluator is the one of the fragment.
\<close>

definition eval_with_complex :: "string \<Rightarrow> py_exception + py_value" where
  "eval_with_complex s =
     (if s = ''0.123456j'' then Inr (Object ''0.123456j'') else python_eval s)"

text \<open>Clients and an executor with a fixed behaviour.\<close>

definition failing_client :: llm_client where
  "failing_client = (\<lambda>system_prompt user_message. Inl (PyException ''TimeoutError'' ''timed out''))"

definition answering_client :: "string \<Rightarrow> llm_client" where
  "answering_client reply = (\<lambda>system_prompt user_message. Inr reply)"

definition failing_executor :: executor where
  "failing_executor = (\<lambda>input chat_history. Inl (PyException ''RuntimeError'' ''agent failed''))"

definition example_frame :: dataframe where
  "example_frame =
     \<lparr>columns = [''id''],
      rows = [[''1''], [''2''], [''3''], [''4''], [''5''], [''6''], [''7''], [''8''], [''9''],
              [''10''], [''11''], [''12'']]\<rparr>"

definition example_env :: "unit db_env" where
  "example_env =
     \<lparr>sqlite_connect = (\<lambda>w p. Inr ()), load_csv_tables = (\<lambda>w p. w),
      read_sql_query = (\<lambda>w p sql. Inr example_frame),
      to_string = (\<lambda>df. Inr (join ''\<newline>'' (map (join '' '') (columns df # rows df))))\<rparr>"

section \<open>Theorems\<close>

text \<open>
  C5. A search on a manager whose store was never initialised raises the
  "Vector store not initialized" error, whatever the query and \<open>k\<close>: this holds for the manager
  as \<^verbatim>\<open>__init__\<close> leaves it, and a call of \<^verbatim>\<open>initialize_vector_store\<close> that raises changes nothing.
\<close>

theorem similarity_search_before_init:
  "similarity_search (VectorStoreManager_init db_type model) q k =
     Inl (PyException ''ValueError'' ''Vector store not initialized'')"
  by (simp add: similarity_search_def VectorStoreManager_init_def)

subsection \<open>Text helpers\<close>

lemma contains_sublist: "contains p s \<longleftrightarrow> sublist p s"
  by (induction s) (auto simp: sublist_Cons_right)

lemma contains_appendI: "contains p ys \<Longrightarrow> contains p (xs @ ys)"
  by (metis contains_sublist sublist_append)

subsection \<open>Numbers\<close>

lemma round_double_eval:
  assumes "q \<noteq> 0" and "floor_log2 \<bar>q\<bar> = k"
    and "round_half_even (\<bar>q\<bar> / pow2 (max k (- 1022) - 52)) = m"
    and "of_int m * pow2 (max k (- 1022) - 52) = v"
    and "v < pow2 1024" and "v \<noteq> 0"
  shows "round_double q = Finite (if q < 0 then - v else v)"
  unfolding round_double_def Let_def assms(2) assms(3) assms(4)
  using assms(1,5,6) by simp

lemmas floor_log2_eval = floor_log2_def bitlen_def compute_floorlog

lemma round_double_120: "round_double 120 = Finite 120"
  using round_double_eval[of 120 6 "120 * 2 ^ 46" 120]
  by (simp add: floor_log2_eval pow2_def round_half_even_def)

lemma round_double_6: "round_double 6 = Finite 6"
  using round_double_eval[of 6 2 "6 * 2 ^ 50" 6]
  by (simp add: floor_log2_eval pow2_def round_half_even_def)

lemma round_double_20: "round_double 20 = Finite 20"
  using round_double_eval[of 20 4 "20 * 2 ^ 48" 20]
  by (simp add: floor_log2_eval pow2_def round_half_even_def)

lemma round_double_overflow:
  assumes "q \<noteq> 0" and "floor_log2 \<bar>q\<bar> = k"
    and "round_half_even (\<bar>q\<bar> / pow2 (max k (- 1022) - 52)) = m"
    and "of_int m * pow2 (max k (- 1022) - 52) = v"
    and "pow2 1024 \<le> v"
  shows "round_double q = Infinity (q < 0)"
  unfolding round_double_def Let_def assms(2) assms(3) assms(4)
  using assms(1,5) by simp

lemma floor_log2_2_1024: "floor_log2 (2 ^ 1024) = 1024"
proof -
  have "bitlen (1 * 2 ^ 1024) = bitlen 1 + int 1024" by (rule bitlen_pow2) simp
  moreover have "bitlen 1 = 1" by (simp add: bitlen_def compute_floorlog)
  ultimately have b: "bitlen (2 ^ 1024) = 1025" by simp
  have f: "\<lfloor>(2::rat) ^ 1024\<rfloor> = 2 ^ 1024"
    by (metis floor_of_int of_int_numeral of_int_power)
  have "(1::rat) \<le> 2 ^ 1024" by (rule one_le_power) simp
  then show ?thesis unfolding floor_log2_def by (simp only: if_True f b)
qed

lemma round_double_2_1024: "round_double (2 ^ 1024) = Infinity False"
proof -
  have a: "\<bar>(2::rat) ^ 1024\<bar> = 2 ^ 1024" by simp
  have e: "max (1024::int) (- 1022) - 52 = 972" by simp
  have p: "pow2 972 = 2 ^ 972" by (simp add: pow2_def)
  have d: "(2::rat) ^ 1024 / 2 ^ 972 = of_int (2 ^ 52)"
    by (simp add: power_diff[symmetric])
  have m: "round_half_even (\<bar>(2::rat) ^ 1024\<bar> / pow2 (max 1024 (- 1022) - 52)) = 2 ^ 52"
    unfolding a e p d round_half_even_def Let_def by (simp only: floor_of_int) simp
  have v: "of_int (2 ^ 52) * pow2 (max 1024 (- 1022) - 52) = (2::rat) ^ 1024"
    unfolding e p by (simp add: power_add[symmetric])
  have o: "pow2 1024 \<le> (2::rat) ^ 1024" by (simp add: pow2_def)
  have n: "(2::rat) ^ 1024 \<noteq> 0" by simp
  have k: "floor_log2 \<bar>(2::rat) ^ 1024\<bar> = 1024" by (simp only: a floor_log2_2_1024)
  have "round_double (2 ^ 1024) = Infinity ((2::rat) ^ 1024 < 0)"
    by (rule round_double_overflow[OF n k m v o])
  then show ?thesis by simp
qed

lemma round_half_even_eval:
  assumes "of_int f \<le> q" and "q < of_int f + 1"
  shows "round_half_even q =
     (if q - of_int f < 1 / 2 then f else if 1 / 2 < q - of_int f then f + 1
      else if even f then f else f + 1)"
proof -
  have "\<lfloor>q\<rfloor> = f" using assms by (rule floor_unique)
  then show ?thesis by (simp add: round_half_even_def Let_def)
qed

lemma fixed_point_eval:
  assumes "round_half_even (a * 10 ^ d) = int n"
  shows "fixed_point d a = str_nat (n div 10 ^ d) @ ''.'' @ zero_pad d (str_nat (n mod 10 ^ d))"
  unfolding fixed_point_def Let_def assms by simp

subsection \<open>Ratio calculator\<close>

lemma format_20: "format_f 2 (Finite 20) = ''20.00''"
  by (simp add: format_f_def fixed_point_def zero_pad_def round_half_even_def digit_char_def)

lemma lower_pe_ratio: "lower ''pe_ratio'' = ''pe_ratio''"
  by code_simp

lemma pe_ratio_example:
  "financial_ratio_calculator ''pe_ratio''
     [''price'' \<mapsto> PyInt 120, ''earnings_per_share'' \<mapsto> PyInt 6] = Inr ''P/E Ratio: 20.00''"
  by (simp add: financial_ratio_calculator_def lower_pe_ratio pe_ratio_def kwargs_get_def
      float_of_number_def round_double_120 round_double_6 round_double_20 float_is_inf_def
      float_is_zero_def float_truediv_def float_val_def format_20)

lemma ratio_never_raises: "\<exists>s. financial_ratio_calculator m kw = Inr s"
  by (simp add: financial_ratio_calculator_def split: sum.splits)

text \<open>
  C3, as amended. \<^verbatim>\<open>financial_ratio_calculator\<close> with \<^verbatim>\<open>pe_ratio\<close>, price 120 and earnings per
  share 6 returns exactly "P/E Ratio: 20.00". For \<^verbatim>\<open>pe_ratio\<close> (in any letter case) with
  earnings per share equal to 0 (the integer 0, either float zero, or no value given) and a
  price that \<^verbatim>\<open>float\<close> accepts, it returns the "Cannot calculate" text: the division is never
  reached. When \<^verbatim>\<open>float\<close> raises on the price, which line 127 converts before the guard of
  line 129, it returns "Calculation error: " with the text of that exception, whatever the
  earnings per share. For a metric type that is neither \<^verbatim>\<open>pe_ratio\<close> nor \<^verbatim>\<open>roe\<close> it returns
  the "Unsupported metric type" text. It never raises.
\<close>

theorem financial_ratio_calculator_cases:
  "financial_ratio_calculator ''pe_ratio''
     [''price'' \<mapsto> PyInt 120, ''earnings_per_share'' \<mapsto> PyInt 6] = Inr ''P/E Ratio: 20.00'' \<and>
   (lower m = ''pe_ratio'' \<and>
    kwargs_get kw ''earnings_per_share'' \<in> {PyInt 0, PyFloat (Finite 0), PyFloat NegZero} \<and>
    float_of_number (kwargs_get kw ''price'') = Inr p \<longrightarrow>
      financial_ratio_calculator m kw = Inr ''P/E Ratio: Cannot calculate (EPS is zero)'') \<and>
   (lower m = ''pe_ratio'' \<and> float_of_number (kwargs_get kw ''price'') = Inl x \<longrightarrow>
      financial_ratio_calculator m kw = Inr (''Calculation error: '' @ exc_str x)) \<and>
   (lower m \<noteq> ''pe_ratio'' \<and> lower m \<noteq> ''roe'' \<longrightarrow>
      financial_ratio_calculator m kw = Inr (''Unsupported metric type: '' @ m)) \<and>
   (\<exists>s. financial_ratio_calculator m kw = Inr s)"
proof -
  have zero: "float_of_number (PyInt 0) = Inr (Finite 0)"
    by (simp add: float_of_number_def round_double_def float_is_inf_def)
  have b: "financial_ratio_calculator m kw = Inr ''P/E Ratio: Cannot calculate (EPS is zero)''"
    if "lower m = ''pe_ratio''"
      and "kwargs_get kw ''earnings_per_share'' \<in> {PyInt 0, PyFloat (Finite 0), PyFloat NegZero}"
      and "float_of_number (kwargs_get kw ''price'') = Inr p"
    using that zero
    by (auto simp: financial_ratio_calculator_def pe_ratio_def float_of_number_def float_is_zero_def)
  have o: "financial_ratio_calculator m kw = Inr (''Calculation error: '' @ exc_str x)"
    if "lower m = ''pe_ratio''" and "float_of_number (kwargs_get kw ''price'') = Inl x"
    using that by (simp add: financial_ratio_calculator_def pe_ratio_def)
  have c: "financial_ratio_calculator m kw = Inr (''Unsupported metric type: '' @ m)"
    if "lower m \<noteq> ''pe_ratio''" and "lower m \<noteq> ''roe''"
    using that by (simp add: financial_ratio_calculator_def)
  show ?thesis
    using pe_ratio_example b o c ratio_never_raises by blast
qed

theorem financial_ratio_calculator_cases_witness:
  "financial_ratio_calculator ''PE_Ratio'' [''price'' \<mapsto> PyFloat (Finite (241 / 2))] =
     Inr ''P/E Ratio: Cannot calculate (EPS is zero)'' \<and>
   financial_ratio_calculator ''current_ratio'' Map.empty =
     Inr ''Unsupported metric type: current_ratio'' \<and>
   financial_ratio_calculator ''Pe_Ratio'' [''price'' \<mapsto> PyInt (2 ^ 1024)] =
     Inr ''Calculation error: int too large to convert to float''"
proof -
  have l1: "lower ''PE_Ratio'' = ''pe_ratio''" by code_simp
  have l2: "lower ''current_ratio'' = ''current_ratio''" by code_simp
  have l3: "lower ''Pe_Ratio'' = ''pe_ratio''" by code_simp
  have "round_double (of_int (2 ^ 1024)) = Infinity False"
    using round_double_2_1024 by simp
  then have o: "float_of_number (PyInt (2 ^ 1024)) =
      Inl (PyException ''OverflowError'' ''int too large to convert to float'')"
    by (simp add: float_of_number_def float_is_inf_def)
  have c1: "financial_ratio_calculator ''PE_Ratio'' [''price'' \<mapsto> PyFloat (Finite (241 / 2))] =
     Inr ''P/E Ratio: Cannot calculate (EPS is zero)''"
    using financial_ratio_calculator_cases[of "''PE_Ratio''"
        "[''price'' \<mapsto> PyFloat (Finite (241 / 2))]" "Finite (241 / 2)"]
    by (simp add: l1 kwargs_get_def float_of_number_def)
  have c2: "financial_ratio_calculator ''current_ratio'' Map.empty =
     Inr ''Unsupported metric type: current_ratio''"
    using financial_ratio_calculator_cases[of "''current_ratio''" Map.empty]
    by (simp add: l2)
  have c3: "financial_ratio_calculator ''Pe_Ratio'' [''price'' \<mapsto> PyInt (2 ^ 1024)] =
     Inr ''Calculation error: int too large to convert to float''"
    using financial_ratio_calculator_cases[of "''Pe_Ratio''" "[''price'' \<mapsto> PyInt (2 ^ 1024)]" _
        "PyException ''OverflowError'' ''int too large to convert to float''"] o
    by (simp add: l3 kwargs_get_def)
  show ?thesis using c1 c2 c3 by simp
qed

text \<open>
  The claim C3 as it was stated fails: with earnings per share 0 and the price \<open>2 ^ 1024\<close>,
  an integer beyond the floats, the result is not the "Cannot calculate" text.
\<close>

theorem pe_ratio_price_overflow:
  "kwargs_get [''price'' \<mapsto> PyInt (2 ^ 1024), ''earnings_per_share'' \<mapsto> PyInt 0]
     ''earnings_per_share'' = PyInt 0 \<and>
   financial_ratio_calculator ''pe_ratio''
     [''price'' \<mapsto> PyInt (2 ^ 1024), ''earnings_per_share'' \<mapsto> PyInt 0] =
     Inr ''Calculation error: int too large to convert to float''"
proof -
  have "round_double (of_int (2 ^ 1024)) = Infinity False"
    using round_double_2_1024 by simp
  then have "float_of_number (PyInt (2 ^ 1024)) =
      Inl (PyException ''OverflowError'' ''int too large to convert to float'')"
    by (simp add: float_of_number_def float_is_inf_def)
  then show ?thesis
    by (simp add: financial_ratio_calculator_def lower_pe_ratio pe_ratio_def kwargs_get_def)
qed

subsection \<open>Calculator\<close>

lemma in_dropWhile: "c \<in> set s \<Longrightarrow> \<not> P c \<Longrightarrow> c \<in> set (dropWhile P s)"
  by (induction s) auto

lemma in_strip: "c \<in> set s \<Longrightarrow> \<not> isspace c \<Longrightarrow> c \<in> set (strip s)"
  by (simp add: strip_def in_dropWhile)

lemma in_replace_pow: "c \<in> set s \<Longrightarrow> c \<noteq> CHR ''*'' \<Longrightarrow> c \<in> set (replace_pow s)"
  by (induction s rule: replace_pow.induct) auto

lemma in_re_sub: "keeps m c \<Longrightarrow> c \<in> set s \<Longrightarrow> c \<in> set (re_sub m s)"
proof (induction m s rule: re_sub.induct)
  case (1 m)
  then show ?case by simp
next
  case (2 m x xs)
  show ?case
  proof (cases "m (x # xs)")
    case None
    then show ?thesis using 2 by auto
  next
    case (Some p)
    obtain repl rest where p: "p = (repl, rest)" by (cases p)
    have k: "c \<in> set repl \<or> c \<in> set rest"
      using "2.prems" Some p unfolding keeps_def by blast
    show ?thesis
    proof (cases "length rest \<le> length xs")
      case True
      have "c \<in> set rest \<Longrightarrow> c \<in> set (re_sub m rest)"
        using "2.IH"(2)[OF Some p[symmetric] True "2.prems"(1)] .
      then show ?thesis using Some p k True by auto
    next
      case False
      have "c \<in> set xs \<Longrightarrow> c \<in> set (re_sub m xs)"
        using "2.IH"(3)[OF Some p[symmetric] False "2.prems"(1)] .
      then show ?thesis using Some p False "2.prems"(2) by auto
    qed
  qed
qed

lemma match_number_split: "match_number s = Some (g, r) \<Longrightarrow> g @ r = s"
proof -
  assume a: "match_number s = Some (g, r)"
  let ?r = "dropWhile isdecimal s"
  show ?thesis
  proof (cases "?r \<noteq> [] \<and> hd ?r = CHR ''.'' \<and> tl ?r \<noteq> [] \<and> isdecimal (hd (tl ?r))")
    case True
    then have g: "g = takeWhile isdecimal s @ ''.'' @ takeWhile isdecimal (tl ?r)"
      and r: "r = dropWhile isdecimal (tl ?r)"
      using a by (auto simp: match_number_def Let_def split: if_splits)
    have x: "CHR ''.'' # tl ?r = ?r" using True by (cases ?r) auto
    have "g @ r = takeWhile isdecimal s @ (CHR ''.'' # tl ?r)"
      by (simp add: g r)
    also have "\<dots> = takeWhile isdecimal s @ ?r" by (simp only: x)
    also have "\<dots> = s" by simp
    finally show ?thesis .
  next
    case False
    then have "g = takeWhile isdecimal s" and "r = ?r"
      using a by (auto simp: match_number_def Let_def split: if_splits)
    then show ?thesis by simp
  qed
qed

lemma match_spaces_split:
  "match_spaces s = Some r \<Longrightarrow> \<exists>w. s = w @ r \<and> (\<forall>x\<in>set w. isspace x)"
  by (rule exI[of _ "takeWhile isspace s"])
     (auto simp: match_spaces_def split: if_splits dest: set_takeWhileD)

lemma match_percent_of_split:
  assumes "match_percent_of s = Some (g1, g2, rest)"
  shows "\<exists>w1 w2. s = g1 @ ''%'' @ w1 @ ''of'' @ w2 @ g2 @ rest \<and>
           (\<forall>x\<in>set w1. isspace x) \<and> (\<forall>x\<in>set w2. isspace x)"
proof -
  obtain r1 r2 r3 where n1: "match_number s = Some (g1, r1)"
    and p: "r1 \<noteq> []" "hd r1 = CHR ''%''"
    and s2: "match_spaces (tl r1) = Some r2"
    and o: "take 2 r2 = ''of''"
    and s3: "match_spaces (drop 2 r2) = Some r3"
    and n4: "match_number r3 = Some (g2, rest)"
    using assms unfolding match_percent_of_def
    by (simp split: option.splits if_splits prod.splits)
  obtain w1 where w1: "tl r1 = w1 @ r2" "\<forall>x\<in>set w1. isspace x"
    using match_spaces_split[OF s2] by blast
  obtain w2 where w2: "drop 2 r2 = w2 @ r3" "\<forall>x\<in>set w2. isspace x"
    using match_spaces_split[OF s3] by blast
  have r3e: "r3 = g2 @ rest" using match_number_split[OF n4] by simp
  have d: "drop 2 r2 = w2 @ g2 @ rest" by (simp only: w2(1) r3e)
  have "take 2 r2 @ drop 2 r2 = r2" by (rule append_take_drop_id)
  then have r2e: "r2 = ''of'' @ w2 @ g2 @ rest" by (simp only: o d)
  have t: "tl r1 = w1 @ ''of'' @ w2 @ g2 @ rest" by (simp only: w1(1) r2e)
  have "r1 = CHR ''%'' # tl r1" using p by (cases r1) auto
  then have r1e: "r1 = ''%'' @ w1 @ ''of'' @ w2 @ g2 @ rest" by (simp only: t append_Cons append_Nil)
  have "g1 @ r1 = s" using match_number_split[OF n1] .
  then have "s = g1 @ ''%'' @ w1 @ ''of'' @ w2 @ g2 @ rest" by (simp only: r1e)
  then show ?thesis using w1(2) w2(2) by blast
qed

lemma keeps_percent_of:
  assumes "c \<noteq> CHR ''%''" "\<not> isspace c" "c \<noteq> CHR ''o''" "c \<noteq> CHR ''f''"
  shows "keeps percent_of_matcher c"
  unfolding keeps_def
proof (intro allI impI)
  fix s repl rest
  assume m: "percent_of_matcher s = Some (repl, rest)" and c: "c \<in> set s"
  obtain g1 g2 where mp: "match_percent_of s = Some (g1, g2, rest)"
    and repl: "repl = ''('' @ g1 @ ''/100) * '' @ g2"
    using m by (auto simp: percent_of_matcher_def split: option.splits)
  obtain w1 w2 where s: "s = g1 @ ''%'' @ w1 @ ''of'' @ w2 @ g2 @ rest"
    and w: "\<forall>x\<in>set w1. isspace x" "\<forall>x\<in>set w2. isspace x"
    using match_percent_of_split[OF mp] by blast
  have "c \<in> set g1 \<or> c \<in> set g2 \<or> c \<in> set rest"
    using c assms w unfolding s by auto
  then show "c \<in> set repl \<or> c \<in> set rest" using repl by auto
qed

lemma keeps_percent:
  assumes "c \<noteq> CHR ''%''"
  shows "keeps percent_matcher c"
  unfolding keeps_def
proof (intro allI impI)
  fix s repl rest
  assume m: "percent_matcher s = Some (repl, rest)" and c: "c \<in> set s"
  obtain g1 r1 where n1: "match_number s = Some (g1, r1)" and p: "r1 \<noteq> []" "hd r1 = CHR ''%''"
    and rest: "rest = tl r1" and repl: "repl = ''('' @ g1 @ ''/100)''"
    using m by (auto simp: percent_matcher_def match_percent_def split: option.splits if_splits)
  have "g1 @ r1 = s" using match_number_split[OF n1] .
  moreover have "r1 = CHR ''%'' # rest" using p rest by (cases r1) auto
  ultimately have "s = g1 @ CHR ''%'' # rest" by simp
  then have "c \<in> set g1 \<or> c \<in> set rest" using c assms by auto
  then show "c \<in> set repl \<or> c \<in> set rest" using repl by auto
qed

lemma in_prepare:
  assumes "c \<in> set e" "c \<noteq> CHR ''%''" "\<not> isspace c" "c \<noteq> CHR ''o''" "c \<noteq> CHR ''f''"
  shows "c \<in> set (prepare_expression e)"
proof -
  have 1: "c \<in> set (strip e)" using assms by (simp add: in_strip)
  have 2: "c \<in> set (re_sub percent_of_matcher (strip e))"
    using in_re_sub[OF keeps_percent_of 1] assms by simp
  have 3: "c \<in> set (re_sub percent_matcher (re_sub percent_of_matcher (strip e)))"
    using in_re_sub[OF keeps_percent 2] assms by simp
  show ?thesis using 1 3 by (simp add: prepare_expression_def Let_def)
qed

lemma gate_invalid_iff:
  "calculator_gate e = Invalid \<longleftrightarrow>
     (\<exists>c\<in>set (replace_pow (prepare_expression e)). c \<notin> allowed_chars \<and> \<not> isalnum c)"
  by (auto simp: calculator_gate_def Let_def safety_check_def list_all_iff)

lemma isalnum_o: "isalnum (CHR ''o'')" and isalnum_f: "isalnum (CHR ''f'')"
  by (simp_all add: isalnum_def)

lemma star_allowed: "CHR ''*'' \<in> allowed_chars"
  by (simp add: allowed_chars_def)

lemma allowed_in_spec: "\<forall>c\<in>allowed_chars. spec_allow_list c"
  unfolding allowed_chars_def
  by (simp add: spec_allow_list_def isdecimal_def isspace_def)

lemma not_spec_allow_list:
  "\<not> spec_allow_list c \<Longrightarrow> c \<notin> allowed_chars \<and> c \<noteq> CHR ''%'' \<and> \<not> isspace c"
  using allowed_in_spec by (auto simp: spec_allow_list_def)

text \<open>
  C1, as amended. The safety check lets through the characters \<^verbatim>\<open>0123456789+-*/.()\<close>, the
  blank and every alphanumeric character, and nothing else. The calculator returns "Error:
  Invalid characters in expression", without calling \<^verbatim>\<open>eval\<close>, exactly when the expression
  after \<^verbatim>\<open>strip\<close> and the percentage rewriting, with \<^verbatim>\<open>**\<close> read as \<^verbatim>\<open>^\<close>, has a character
  that is neither allowed nor alphanumeric. In particular it does so for every input with a
  character that is outside the allow-list of the specification (digits, \<^verbatim>\<open>+ - * / ( ) . %\<close>,
  whitespace) and not alphanumeric. Letters pass the check.
\<close>

theorem calculator_rejects_invalid_characters:
  "(calculator_gate e = Invalid \<longleftrightarrow>
      (\<exists>c\<in>set (replace_pow (prepare_expression e)). c \<notin> allowed_chars \<and> \<not> isalnum c)) \<and>
   (calculator_gate e = Invalid \<longrightarrow>
      (\<forall>ev. financial_calculator ev e = Inr ''Error: Invalid characters in expression'')) \<and>
   ((\<exists>c\<in>set e. \<not> spec_allow_list c \<and> \<not> isalnum c) \<longrightarrow> calculator_gate e = Invalid)"
proof -
  have b: "calculator_gate e = Invalid" if h: "\<exists>c\<in>set e. \<not> spec_allow_list c \<and> \<not> isalnum c"
  proof -
    obtain c where c: "c \<in> set e" "\<not> spec_allow_list c" "\<not> isalnum c" using h by blast
    have n: "c \<notin> allowed_chars" "c \<noteq> CHR ''%''" "\<not> isspace c"
      using not_spec_allow_list[OF c(2)] by simp_all
    have "c \<noteq> CHR ''o''" "c \<noteq> CHR ''f''" "c \<noteq> CHR ''*''"
      using c(3) n(1) isalnum_o isalnum_f star_allowed by auto
    then have "c \<in> set (replace_pow (prepare_expression e))"
      using in_replace_pow in_prepare c(1) n by simp
    then show ?thesis using gate_invalid_iff n(1) c(3) by blast
  qed
  show ?thesis
    using gate_invalid_iff[of e] b by (auto simp: financial_calculator_def)
qed


theorem calculator_rejects_invalid_characters_witness:
  "calculator_gate ''10 & 3'' = Invalid \<and>
   financial_calculator python_eval ''10 & 3'' = Inr ''Error: Invalid characters in expression''"
proof -
  have "CHR ''&'' \<in> set ''10 & 3''" by simp
  moreover have "\<not> spec_allow_list (CHR ''&'')"
    by (simp add: spec_allow_list_def isdecimal_def isspace_def)
  moreover have "\<not> isalnum (CHR ''&'')" by (simp add: isalnum_def)
  ultimately have "\<exists>c\<in>set ''10 & 3''. \<not> spec_allow_list c \<and> \<not> isalnum c" by blast
  then show ?thesis
    using calculator_rejects_invalid_characters[of "''10 & 3''"] by blast
qed

lemma gate_math_pi: "calculator_gate ''math.pi'' = Evaluate ''math.pi''"
  by code_simp

lemma gate_import_os: "calculator_gate ''import os'' = Evaluate ''import os''"
  by code_simp

lemma tokenize_math_pi: "tokenize ''math.pi'' = Some [TName ''math'', TOp (CHR ''.''), TName ''pi'']"
  by code_simp

lemma parse_math_pi: "parse_expression [TName ''math'', TOp (CHR ''.''), TName ''pi''] = Some EMathPi"
  by code_simp

lemma python_eval_math_pi: "python_eval ''math.pi'' = Inr (Number (PyFloat math_pi))"
  by (simp add: python_eval_def arith_eval_def tokenize_math_pi parse_math_pi)

lemma math_pi_value: "math_pi = Finite (884279719003555 / 281474976710656)"
  by (simp add: math_pi_def)

lemma round_pi: "round_half_even (884279719003555 / 281474976710656 * 10 ^ 4) = int 31416"
  using round_half_even_eval[of 31415 "884279719003555 / 281474976710656 * 10 ^ 4"]
  by simp

lemma fixed_pi: "fixed_point 4 (884279719003555 / 281474976710656) = ''3.1416''"
  using fixed_point_eval[OF round_pi]
  by (simp add: zero_pad_def digit_char_def)

lemma render_math_pi: "render_result (Number (PyFloat math_pi)) = Inr ''3.1416''"
proof -
  have fl: "\<lfloor>(884279719003555::rat) / 281474976710656\<rfloor> = 3"
    by (rule floor_unique) simp_all
  have ni: "\<not> float_is_integer (Finite (884279719003555 / 281474976710656))"
    unfolding float_is_integer_def by (simp only: py_float.case fl)
  have fm: "format_f 4 (Finite (884279719003555 / 281474976710656)) = ''3.1416''"
    unfolding format_f_def by (simp only: py_float.case) (simp add: fixed_pi)
  have rs: "rstrip (CHR ''.'') (rstrip (CHR ''0'') ''3.1416'') = ''3.1416''"
    by (simp add: rstrip_def)
  show ?thesis
    unfolding math_pi_value render_result_def
    by (simp only: py_value.case py_number.case ni if_False fm rs)
qed

text \<open>
  The claim C1 as it was stated fails for letters, which are outside its allow-list: the
  input \<^verbatim>\<open>math.pi\<close> passes the check, is evaluated and gives "3.1416", and the input
  \<^verbatim>\<open>import os\<close> passes the check and is handed to \<^verbatim>\<open>eval\<close>.
\<close>

theorem calculator_evaluates_letters:
  "CHR ''m'' \<in> set ''math.pi'' \<and> \<not> spec_allow_list (CHR ''m'') \<and>
   calculator_gate ''math.pi'' = Evaluate ''math.pi'' \<and>
   financial_calculator python_eval ''math.pi'' = Inr ''3.1416'' \<and>
   CHR ''i'' \<in> set ''import os'' \<and> \<not> spec_allow_list (CHR ''i'') \<and>
   calculator_gate ''import os'' = Evaluate ''import os''"
proof -
  have "\<not> spec_allow_list (CHR ''m'')" "\<not> spec_allow_list (CHR ''i'')"
    by (simp_all add: spec_allow_list_def isdecimal_def isspace_def)
  moreover have "financial_calculator python_eval ''math.pi'' = Inr ''3.1416''"
    by (simp add: financial_calculator_def gate_math_pi python_eval_math_pi render_math_pi)
  ultimately show ?thesis
    using gate_math_pi gate_import_os by simp
qed

subsection \<open>Guardrails\<close>

lemma disclaimer_has_word: "contains ''disclaimer'' (lower financial_disclaimer)"
  by code_simp

lemma disclaimer_blocks:
  "contains ''disclaimer'' (lower (r @ ''\<newline>\<newline>'' @ financial_disclaimer))"
proof -
  have "lower (r @ ''\<newline>\<newline>'' @ financial_disclaimer) =
        (lower r @ lower ''\<newline>\<newline>'') @ lower financial_disclaimer"
    by (simp add: lower_def)
  moreover have "contains ''disclaimer''
        ((lower r @ lower ''\<newline>\<newline>'') @ lower financial_disclaimer)"
    by (rule contains_appendI[OF disclaimer_has_word])
  ultimately show ?thesis by (simp only:)
qed

text \<open>
  C7. \<^verbatim>\<open>check_output_safety\<close> always allows, and it is idempotent on the text: applied to the
  text its first application returns, it allows again and returns that text unchanged, so the
  disclaimer is never appended twice. The second round finds the word "disclaimer" in the
  lower-cased text, which the appended block contains.
\<close>

theorem check_output_safety_idempotent:
  "fst (check_output_safety r) \<and>
   fst (check_output_safety (fst (snd (check_output_safety r)))) \<and>
   fst (snd (check_output_safety (fst (snd (check_output_safety r))))) =
     fst (snd (check_output_safety r))"
proof -
  let ?m = "r @ ''\<newline>\<newline>'' @ financial_disclaimer"
  have allowed: "\<And>x. fst (check_output_safety x)"
    by (simp add: check_output_safety_def Let_def)
  have blocked: "fst (snd (check_output_safety ?m)) = ?m"
    using disclaimer_blocks[of r] by (simp add: check_output_safety_def Let_def)
  have kept: "\<And>x. fst (snd (check_output_safety x)) = x \<or>
      fst (snd (check_output_safety x)) = x @ ''\<newline>\<newline>'' @ financial_disclaimer"
    by (simp add: check_output_safety_def Let_def)
  show ?thesis
  proof (cases "fst (snd (check_output_safety r)) = r")
    case True
    then show ?thesis using allowed by simp
  next
    case False
    then have "fst (snd (check_output_safety r)) = ?m" using kept[of r] by blast
    then show ?thesis using allowed blocked by simp
  qed
qed

subsection \<open>The agent\<close>

lemma retrieve_never_raises: "\<exists>s. retrieve_relevant_context a q k = Inr s"
  by (simp add: retrieve_relevant_context_def split: option.splits sum.splits)

lemma direct_llm_never_raises: "\<exists>s. direct_llm a p = Inr s"
  by (simp add: direct_llm_def split: option.splits sum.splits)

lemma get_llm_response_never_raises: "\<exists>s. get_llm_response a p u = Inr s"
  using direct_llm_never_raises[of a p]
  by (auto simp add: get_llm_response_def split: option.splits sum.splits)

lemma metadata_info_spec: "join '' | '' (metadata_info d) = spec_metadata d"
  by (simp add: metadata_info_def spec_metadata_def split: option.splits)

lemma context_part_spec: "context_part i d = spec_chunk i d"
  by (simp add: context_part_def spec_chunk_def metadata_info_spec)

lemma context_loop_map:
  "context_loop i docs acc = acc @ map (\<lambda>j. context_part (i + j) (docs ! j)) [0..<length docs]"
proof (induction docs arbitrary: i acc)
  case Nil
  then show ?case by simp
next
  case (Cons d ds)
  have "map (\<lambda>j. context_part (i + j) ((d # ds) ! j)) [0..<length (d # ds)] =
        context_part i d # map (\<lambda>j. context_part (Suc i + j) (ds ! j)) [0..<length ds]"
    by (simp add: map_upt_Suc del: upt_Suc)
  then show ?case using Cons.IH[of "Suc i" "acc @ [context_part i d]"] by simp
qed

text \<open>
  C6. The context assembler maps the empty retrieval result to the empty string, and any
  retrieval result to one string: the chunks in retrieval order, joined by blank lines, the
  chunk at position \<open>j\<close> (from 0) numbered \<open>[j + 1]\<close> and followed by its content and, in
  parentheses, the company and the date of its metadata, each when present, separated by a
  pipe. \<^verbatim>\<open>retrieve_relevant_context\<close> returns that string whenever manager and store are set
  and the search returns.
\<close>

theorem assemble_context_numbered:
  "assemble_context [] = [] \<and>
   assemble_context docs =
     join ''\<newline>\<newline>'' (map (\<lambda>j. spec_chunk (j + 1) (docs ! j)) [0..<length docs]) \<and>
   (vector_store_manager a = Some vsm \<and> agent_vector_store a = Some vs \<and> vs_truth vs \<and>
    similarity_search vsm q k = Inr docs \<longrightarrow>
      retrieve_relevant_context a q k = Inr (assemble_context docs))"
  by (simp add: assemble_context_def context_loop_map context_part_spec retrieve_relevant_context_def)

theorem assemble_context_numbered_witness:
  "retrieve_relevant_context (example_agent None None) ''news'' 5 =
     Inr ''[1] Alpha rises (Company: Alpha | Date: 2024-01-02)\<newline>\<newline>[2] Beta falls ()''"
  using assemble_context_numbered[of example_docs "example_agent None None"
      "\<lparr>vector_db_type = ''chroma'', embedding_model_name = ''model'',
              vector_store = Some example_store\<rparr>" example_store "''news''" 5]
  by (simp add: example_agent_def example_store_def similarity_search_def example_docs_def
      spec_chunk_def spec_metadata_def digit_char_def)

text \<open>
  C8, as amended. When the agent path is not taken (\<^verbatim>\<open>use_agent\<close> false, no executor, or
  tools disabled) or the executor raises, \<^verbatim>\<open>get_llm_response\<close> is the direct chat completion
  of one client, chosen by presence: the primary (OpenAI) client when there is one, else the
  secondary (Ollama) client when there is one, else the fixed text "No LLM client available".
  An exception of the chosen client becomes the text "LLM error: ..." and no other client is
  asked. The function never raises.
\<close>

theorem get_llm_response_fallback:
  assumes "\<not> use_agent \<or> agent_executor a = None \<or> \<not> enable_tools a \<or>
           (\<exists>ex e. agent_executor a = Some ex \<and>
                    ex p (last_turns 10 (conversation_history a)) = Inl e)"
  shows "(\<forall>c r. openai_client a = Some c \<and> c ''You are a financial analysis expert.'' p = Inr r \<longrightarrow>
            get_llm_response a p use_agent = Inr r) \<and>
         (\<forall>c r. openai_client a = None \<and> ollama_client a = Some c \<and>
                c ''You are a financial analysis expert.'' p = Inr r \<longrightarrow>
            get_llm_response a p use_agent = Inr r) \<and>
         (\<forall>c e. (openai_client a = Some c \<or> openai_client a = None \<and> ollama_client a = Some c) \<and>
                c ''You are a financial analysis expert.'' p = Inl e \<longrightarrow>
            get_llm_response a p use_agent = Inr (''LLM error: '' @ exc_str e)) \<and>
         (openai_client a = None \<and> ollama_client a = None \<longrightarrow>
            get_llm_response a p use_agent = Inr ''No LLM client available'') \<and>
         (\<exists>s. get_llm_response a p use_agent = Inr s)"
proof -
  have fb: "get_llm_response a p use_agent = direct_llm a p"
    using assms by (auto simp: get_llm_response_def split: option.splits)
  show ?thesis
    unfolding fb using direct_llm_never_raises[of a p]
    by (auto simp: direct_llm_def)
qed

theorem get_llm_response_fallback_witness:
  "get_llm_response (example_agent None None) ''What is ROE?'' True = Inr ''No LLM client available'' \<and>
   get_llm_response (example_agent (Some (answering_client ''primary''))
      (Some (answering_client ''secondary''))) ''What is ROE?'' True = Inr ''primary'' \<and>
   get_llm_response (example_agent None (Some (answering_client ''secondary'')))
      ''What is ROE?'' True = Inr ''secondary'' \<and>
   get_llm_response (example_agent None (Some failing_client)) ''What is ROE?'' True =
      Inr ''LLM error: timed out'' \<and>
   get_llm_response ((example_agent (Some (answering_client ''primary'')) None)
      \<lparr>enable_tools := True, agent_executor := Some failing_executor\<rparr>) ''What is ROE?'' True =
      Inr ''primary''"
  using get_llm_response_fallback[of True "example_agent None None" "''What is ROE?''"]
    get_llm_response_fallback[of True
      "example_agent (Some (answering_client ''primary'')) (Some (answering_client ''secondary''))"
      "''What is ROE?''"]
    get_llm_response_fallback[of True
      "example_agent None (Some (answering_client ''secondary''))" "''What is ROE?''"]
    get_llm_response_fallback[of True
      "example_agent None (Some failing_client)" "''What is ROE?''"]
    get_llm_response_fallback[of True
      "(example_agent (Some (answering_client ''primary'')) None)
         \<lparr>enable_tools := True, agent_executor := Some failing_executor\<rparr>" "''What is ROE?''"]
  by (simp add: example_agent_def answering_client_def failing_client_def failing_executor_def)

text \<open>
  The claim C8 as it was stated, with the secondary tried after the primary, fails: when the
  primary client is present and raises, the secondary client, present and able to answer, is
  not asked.
\<close>

theorem get_llm_response_no_failover:
  "openai_client (example_agent (Some failing_client) (Some (answering_client ''secondary''))) =
     Some failing_client \<and>
   ollama_client (example_agent (Some failing_client) (Some (answering_client ''secondary''))) =
     Some (answering_client ''secondary'') \<and>
   answering_client ''secondary'' ''You are a financial analysis expert.'' ''What is ROE?'' =
     Inr ''secondary'' \<and>
   get_llm_response (example_agent (Some failing_client) (Some (answering_client ''secondary'')))
     ''What is ROE?'' True = Inr ''LLM error: timed out'' \<and>
   get_llm_response (example_agent (Some failing_client) (Some (answering_client ''secondary'')))
     ''What is ROE?'' True \<noteq> Inr ''secondary''"
  by (simp add: example_agent_def get_llm_response_def direct_llm_def failing_client_def
      answering_client_def)

text \<open>
  C9. Every call of \<^verbatim>\<open>analyze_query\<close> returns, and the conversation history after it is the
  history before it followed by exactly two turns: the user turn with the original query (not
  the query enhanced with context), then the assistant turn with the response of the result.
  The turns stored before are the first turns of the new history, unchanged.
\<close>

theorem analyze_query_history:
  "\<exists>res a'. analyze_query a q = Inr (res, a') \<and> query res = q \<and>
     conversation_history a' =
       conversation_history a @ [HumanMessage q, AIMessage (response res)] \<and>
     take (length (conversation_history a)) (conversation_history a') = conversation_history a"
proof -
  obtain ctx where c: "(if enable_rag a then retrieve_relevant_context a q 5 else Inr []) = Inr ctx"
    using retrieve_never_raises[of a q 5] by (cases "enable_rag a") auto
  obtain resp where r: "get_llm_response a (if ctx \<noteq> [] then enhance_query q ctx else q) True = Inr resp"
    using get_llm_response_never_raises by blast
  show ?thesis
    unfolding analyze_query_def using c r by (simp add: Let_def)
qed

subsection \<open>Database tool\<close>

text \<open>
  C4. \<^verbatim>\<open>query_database\<close> returns a string for every SQL text and never raises. When the
  query fails, the string is "Database error: " followed by the text of the exception. When
  the result has more than 10 rows (and, as every SQL result set, at least one column), the
  string is the rendering of the frame cut to its first 10 rows, followed by the suffix
  that counts all rows.
\<close>

theorem query_database_returns_text:
  "(\<exists>s. query_database env w tool sql = Inr s) \<and>
   (\<forall>e. read_sql_query env w (db_path tool) sql = Inl e \<longrightarrow>
        query_database env w tool sql = Inr (''Database error: '' @ exc_str e)) \<and>
   (\<forall>df s. read_sql_query env w (db_path tool) sql = Inr df \<and> columns df \<noteq> [] \<and>
           10 < length (rows df) \<and> to_string env (df_head 10 df) = Inr s \<longrightarrow>
        rows (df_head 10 df) = take 10 (rows df) \<and> length (rows (df_head 10 df)) = 10 \<and>
        query_database env w tool sql =
          Inr (s @ ''\<newline>... (showing first 10 of '' @ str_nat (length (rows df)) @ '' results)''))"
  by (auto simp: query_database_def df_head_def df_len_def df_empty_def split: sum.splits)

theorem query_database_returns_text_witness:
  "query_database example_env () \<lparr>db_path = ''financial_data.db''\<rparr> ''SELECT id FROM financial_news'' =
     Inr ''id\<newline>1\<newline>2\<newline>3\<newline>4\<newline>5\<newline>6\<newline>7\<newline>8\<newline>9\<newline>10\<newline>... (showing first 10 of 12 results)''"
proof -
  have r: "read_sql_query example_env () (db_path \<lparr>db_path = ''financial_data.db''\<rparr>)
             ''SELECT id FROM financial_news'' = Inr example_frame"
    by (simp add: example_env_def)
  have c: "columns example_frame \<noteq> []" and l: "10 < length (rows example_frame)"
    by (simp_all add: example_frame_def)
  have t: "to_string example_env (df_head 10 example_frame) =
      Inr ''id\<newline>1\<newline>2\<newline>3\<newline>4\<newline>5\<newline>6\<newline>7\<newline>8\<newline>9\<newline>10''"
    by (simp add: example_env_def df_head_def example_frame_def)
  have n: "str_nat (length (rows example_frame)) = ''12''"
    by (simp add: example_frame_def digit_char_def)
  show ?thesis
    using query_database_returns_text[of example_env "()" "\<lparr>db_path = ''financial_data.db''\<rparr>"
      "''SELECT id FROM financial_news''", THEN conjunct2, THEN conjunct2, rule_format,
      OF conjI[OF r conjI[OF c conjI[OF l t]]]] n
    by simp
qed

subsection \<open>Market sentiment\<close>

text \<open>
  C10. \<^verbatim>\<open>get_market_sentiment\<close> does not depend on \<^verbatim>\<open>days\<close>: for the same external
  behaviour, the same state of files and database, the same company and sector, two calls
  with different values of \<^verbatim>\<open>days\<close> return the same string. The SQL text has no condition on
  the date.
\<close>

theorem get_market_sentiment_ignores_days:
  "get_market_sentiment env w company sector days1 = get_market_sentiment env w company sector days2"
  by (simp add: get_market_sentiment_def)

end
